theory Spec2Isabelle
  imports Complex_Main
begin

section \<open>The scroll-effect presets of amp-fx-collection\<close>

text \<open>
  A shallow embedding of \<^verbatim>\<open>extensions/amp-fx-collection/0.1/providers/amp-fx-presets.js\<close>:
  the four presets \<^verbatim>\<open>parallax\<close>, \<^verbatim>\<open>fly-in-bottom\<close>, \<^verbatim>\<open>fade-in\<close> and
  \<^verbatim>\<open>fade-in-scroll\<close>, each with its \<^verbatim>\<open>isFxTypeSupported\<close>, \<^verbatim>\<open>userAsserts\<close> and
  \<^verbatim>\<open>update\<close>.
\<close>

subsection \<open>JavaScript numbers\<close>

text \<open>
  A JavaScript number is \<^verbatim>\<open>NaN\<close>, one of the two infinities, or a finite value. The
  finite values are taken as exact reals: the rounding of IEEE doubles and the sign of
  zero are outside this model (a division by zero reads its divisor as \<^verbatim>\<open>+0\<close>, and
  no finite result overflows). The properties below therefore use no law of arithmetic:
  they rest on the control flow and on comparisons, and they evaluate arithmetic only in
  examples whose numbers are exact doubles.
  Everything else follows the language: \<^verbatim>\<open>NaN\<close> is absorbing, every comparison with
  \<^verbatim>\<open>NaN\<close> is false, and no arithmetic operation raises.
\<close>

datatype jsnum = NaN | NegInf | PosInf | Fin real

fun js_neg :: "jsnum \<Rightarrow> jsnum" where
  "js_neg NaN = NaN"
| "js_neg NegInf = PosInf"
| "js_neg PosInf = NegInf"
| "js_neg (Fin a) = Fin (- a)"

fun js_add :: "jsnum \<Rightarrow> jsnum \<Rightarrow> jsnum" where
  "js_add NaN _ = NaN"
| "js_add _ NaN = NaN"
| "js_add (Fin a) (Fin b) = Fin (a + b)"
| "js_add PosInf NegInf = NaN"
| "js_add NegInf PosInf = NaN"
| "js_add PosInf _ = PosInf"
| "js_add NegInf _ = NegInf"
| "js_add (Fin a) y = y"

fun js_mul :: "jsnum \<Rightarrow> jsnum \<Rightarrow> jsnum" where
  "js_mul NaN _ = NaN"
| "js_mul _ NaN = NaN"
| "js_mul (Fin a) (Fin b) = Fin (a * b)"
| "js_mul (Fin a) y = (if a = 0 then NaN else if 0 < a then y else js_neg y)"
| "js_mul x (Fin b) = (if b = 0 then NaN else if 0 < b then x else js_neg x)"
| "js_mul PosInf y = y"
| "js_mul NegInf y = js_neg y"

fun js_div :: "jsnum \<Rightarrow> jsnum \<Rightarrow> jsnum" where
  "js_div NaN _ = NaN"
| "js_div _ NaN = NaN"
| "js_div (Fin a) (Fin b) =
     (if b = 0 then (if a = 0 then NaN else if 0 < a then PosInf else NegInf)
      else Fin (a / b))"
| "js_div (Fin a) y = Fin 0"
| "js_div x (Fin b) = (if 0 \<le> b then x else js_neg x)"
| "js_div x y = NaN"

fun js_less :: "jsnum \<Rightarrow> jsnum \<Rightarrow> bool" where
  "js_less NaN _ = False"
| "js_less _ NaN = False"
| "js_less (Fin a) (Fin b) = (a < b)"
| "js_less NegInf NegInf = False"
| "js_less NegInf _ = True"
| "js_less _ NegInf = False"
| "js_less PosInf _ = False"
| "js_less _ PosInf = True"

definition js_less_eq :: "jsnum \<Rightarrow> jsnum \<Rightarrow> bool" where
  "js_less_eq a b = (a \<noteq> NaN \<and> b \<noteq> NaN \<and> (a = b \<or> js_less a b))"

text \<open>
  The operators of the language on \<^typ>\<open>jsnum\<close>, so that the presets below read as their
  source does. The classes are the syntactic ones only: no law of a field or of an
  order is assumed of JavaScript numbers. \<^verbatim>\<open>a > b\<close> of the source is \<open>b < a\<close>.
\<close>

instantiation jsnum :: "{zero, one, plus, minus, uminus, times, inverse, ord}"
begin

definition zero_jsnum :: jsnum where
  "zero_jsnum = Fin 0"

definition one_jsnum :: jsnum where
  "one_jsnum = Fin 1"

definition plus_jsnum :: "jsnum \<Rightarrow> jsnum \<Rightarrow> jsnum" where
  "plus_jsnum a b = js_add a b"

definition uminus_jsnum :: "jsnum \<Rightarrow> jsnum" where
  "uminus_jsnum a = js_neg a"

definition minus_jsnum :: "jsnum \<Rightarrow> jsnum \<Rightarrow> jsnum" where
  "minus_jsnum a b = js_add a (js_neg b)"

definition times_jsnum :: "jsnum \<Rightarrow> jsnum \<Rightarrow> jsnum" where
  "times_jsnum a b = js_mul a b"

definition divide_jsnum :: "jsnum \<Rightarrow> jsnum \<Rightarrow> jsnum" where
  "divide_jsnum a b = js_div a b"

definition inverse_jsnum :: "jsnum \<Rightarrow> jsnum" where
  "inverse_jsnum a = js_div (Fin 1) a"

definition less_jsnum :: "jsnum \<Rightarrow> jsnum \<Rightarrow> bool" where
  "less_jsnum a b = js_less a b"

definition less_eq_jsnum :: "jsnum \<Rightarrow> jsnum \<Rightarrow> bool" where
  "less_eq_jsnum a b = js_less_eq a b"

instance ..

end

definition truthy :: "jsnum \<Rightarrow> bool" where
  \<comment> \<open>A number used as a condition: \<^verbatim>\<open>0\<close> and \<^verbatim>\<open>NaN\<close> are falsy.\<close>
  "truthy n = (n \<noteq> NaN \<and> n \<noteq> Fin 0)"

subsection \<open>Collaborators of the presets\<close>

text \<open>
  The presets import \<^verbatim>\<open>dev\<close> and \<^verbatim>\<open>user\<close> (the two loggers), \<^verbatim>\<open>isExperimentOn\<close> and
  \<^verbatim>\<open>setStyles\<close>, and they work on a host object (\<^verbatim>\<open>FxElement\<close>) that the file receives
  as \<^verbatim>\<open>this\<close>. None of them is defined in the presets file.
\<close>

datatype channel = User | Dev

datatype error = AssertionError channel string

definition asserting :: "channel \<Rightarrow> bool \<Rightarrow> string \<Rightarrow> (error + 'a) \<Rightarrow> error + 'a" where
  \<comment> \<open>Modelled from the spec: the method \<^verbatim>\<open>assert\<close> of the loggers of \<^verbatim>\<open>src/log\<close>, which is
      not among the sources. \<^verbatim>\<open>user().assert(c, msg, element)\<close> fails with a user-facing
      error when \<^verbatim>\<open>c\<close> is falsy and otherwise lets the caller go on (the last argument
      here is the rest of the caller); \<^verbatim>\<open>dev().assert\<close> is the same method of the
      developers' logger. The message is the format string as the caller passes it.\<close>
  "asserting ch c msg rest = (if c then rest else Inl (AssertionError ch msg))"

type_synonym element = "string \<rightharpoonup> string"

definition hasAttribute :: "element \<Rightarrow> string \<Rightarrow> bool" where
  "hasAttribute el name = (el name \<noteq> None)"

definition getAttribute :: "element \<Rightarrow> string \<Rightarrow> string option" where
  \<comment> \<open>\<^verbatim>\<open>null\<close> for an attribute the element does not have.\<close>
  "getAttribute el name = el name"

definition attr_truthy :: "string option \<Rightarrow> bool" where
  \<comment> \<open>An attribute value used as a condition: \<^verbatim>\<open>null\<close> and the empty string are falsy.\<close>
  "attr_truthy v = (case v of None \<Rightarrow> False | Some s \<Rightarrow> s \<noteq> [])"

definition parseFloat :: "(string \<Rightarrow> jsnum) \<Rightarrow> string option \<Rightarrow> jsnum" where
  \<comment> \<open>The language's \<^verbatim>\<open>parseFloat\<close> on an attribute value. On a string it is the
      parameter \<open>pf\<close>: nothing is assumed of how strings parse. \<^verbatim>\<open>parseFloat(null)\<close>
      parses the string \<^verbatim>\<open>"null"\<close>, which starts with no number: \<^verbatim>\<open>NaN\<close>.\<close>
  "parseFloat pf v = (case v of None \<Rightarrow> NaN | Some s \<Rightarrow> pf s)"

definition parseFloat_number :: "jsnum \<Rightarrow> jsnum" where
  \<comment> \<open>\<^verbatim>\<open>parseFloat\<close> on a number prints it and parses it back: the number itself.\<close>
  "parseFloat_number n = n"

type_synonym window = "string set"

definition isExperimentOn :: "window \<Rightarrow> string \<Rightarrow> bool" where
  \<comment> \<open>Modelled from the spec: the feature-flag query of \<^verbatim>\<open>src/experiments\<close>, which is not
      among the sources. A window is read only through it, so a window is the set of
      the experiments that are turned on.\<close>
  "isExperimentOn win experimentId = (experimentId \<in> win)"

datatype css = CssText string | CssNumber jsnum | CssTranslateYPx jsnum

datatype Mutation =
  ParallaxMutation | FlyInBottomMutation | FadeInMutation | FadeInScrollMutation

record PositionRect =
  rectTop :: jsnum

record PositionEntry =
  positionRect :: "PositionRect option"

record FxElement =
  adjustedViewportHeight :: jsnum
  getFactor :: jsnum
  getMargin :: jsnum
  getMarginStart :: jsnum
  getMarginEnd :: jsnum
  getDuration :: string
  getEasing :: string
  hasRepeat :: bool
  getOffset :: jsnum
  isMutateScheduled :: bool
  getResources :: "Mutation list"
  getElement :: "string \<rightharpoonup> css"

text \<open>
  Modelled from the spec: the host object \<^verbatim>\<open>FxElement\<close>, whose class is not among the
  sources. It holds \<^verbatim>\<open>adjustedViewportHeight\<close>, the \<^verbatim>\<open>factor\<close>, \<^verbatim>\<open>margin\<close>,
  \<^verbatim>\<open>marginStart\<close> and \<^verbatim>\<open>marginEnd\<close> (numbers), a mutable \<^verbatim>\<open>offset\<close>, the flag
  \<^verbatim>\<open>mutateScheduled\<close> and a reference to the mutation-scheduling service. The service is
  its queue of callbacks handed to \<^verbatim>\<open>mutateElement\<close> and not yet run, oldest first; the
  element (\<^verbatim>\<open>getElement\<close>) is its inline style. A field read through a getter has
  the getter's name; \<^verbatim>\<open>resources_\<close> and \<^verbatim>\<open>getResources()\<close> are the same field.
\<close>

abbreviation setOffset :: "FxElement \<Rightarrow> jsnum \<Rightarrow> FxElement" where
  "setOffset fx v \<equiv> fx\<lparr>getOffset := v\<rparr>"

abbreviation setIsMutateScheduled :: "FxElement \<Rightarrow> bool \<Rightarrow> FxElement" where
  "setIsMutateScheduled fx b \<equiv> fx\<lparr>isMutateScheduled := b\<rparr>"

definition mutateElement :: "FxElement \<Rightarrow> Mutation \<Rightarrow> FxElement" where
  \<comment> \<open>Modelled from the spec: \<^verbatim>\<open>mutateElement(element, callback)\<close> of the
      mutation-scheduling service, which is not among the sources. The write is
      deferred: the callback is queued, not run.\<close>
  "mutateElement fx cb = fx\<lparr>getResources := getResources fx @ [cb]\<rparr>"

definition setStyles :: "FxElement \<Rightarrow> (string \<times> css) list \<Rightarrow> FxElement" where
  \<comment> \<open>Modelled from the spec: the style-setting utility of \<^verbatim>\<open>src/style\<close>, which takes a
      mapping of CSS property to value and sets each on the element.\<close>
  "setStyles fx styles = fx\<lparr>getElement := getElement fx ++ map_of styles\<rparr>"

subsection \<open>The presets\<close>

datatype FxType = Parallax | FlyInBottom | FadeIn | FadeInScroll

definition Presets :: "string \<Rightarrow> FxType option" where
  \<comment> \<open>The keys of the exported object.\<close>
  "Presets name =
     (if name = ''parallax'' then Some Parallax
      else if name = ''fly-in-bottom'' then Some FlyInBottom
      else if name = ''fade-in'' then Some FadeIn
      else if name = ''fade-in-scroll'' then Some FadeInScroll
      else None)"

datatype jsval = Undefined | Boolean bool

fun isFxTypeSupported :: "FxType \<Rightarrow> window \<Rightarrow> error + jsval" where
  "isFxTypeSupported Parallax unusedWin = Inr (Boolean True)"
| "isFxTypeSupported FlyInBottom win = Inr (Boolean True)"
| "isFxTypeSupported FadeIn win =
     asserting User (isExperimentOn win ''amp-fx-fade-in'')
       ''amp-fx-fade-in experiment is not turned on.''
       (Inr Undefined)"
| "isFxTypeSupported FadeInScroll win =
     asserting User (isExperimentOn win ''amp-fx-fade-in-scroll'')
       ''amp-fx-fade-in-scroll experiment is not turned on.''
       (Inr Undefined)"

fun userAsserts :: "(string \<Rightarrow> jsnum) \<Rightarrow> FxType \<Rightarrow> element \<Rightarrow> error + unit" where
  "userAsserts pf Parallax el =
     asserting User (attr_truthy (getAttribute el ''data-parallax-factor''))
       ''data-parallax-factor=<number> attribute must be provided for: %s''
       (let factorValue = getAttribute el ''data-parallax-factor'' in
        asserting User (0 < parseFloat pf factorValue)
          ''data-parallax-factor must be a number and greater than 0 for: %s''
          (Inr ()))"
| "userAsserts pf FlyInBottom el =
     (if \<not> hasAttribute el ''data-margin'' then Inr ()
      else
        let margin = getAttribute el ''data-margin'' in
        asserting User (0 \<le> parseFloat pf margin \<and> parseFloat pf margin < 1)
          ''data-margin must be a number and be between 0 and 1 for: %s''
          (Inr ()))"
| "userAsserts pf FadeIn el =
     (if \<not> hasAttribute el ''data-margin-start'' then Inr ()
      else
        let marginStart = getAttribute el ''data-margin-start'' in
        asserting User (0 \<le> parseFloat pf marginStart \<and> parseFloat pf marginStart < 1)
          ''data-margin-start must be a number and be between 0 and 1 for: %s''
          (Inr ()))"
| "userAsserts pf FadeInScroll el =
     (if \<not> hasAttribute el ''data-margin-start'' \<and> \<not> hasAttribute el ''data-margin-end''
      then Inr ()
      else
        let marginStart = getAttribute el ''data-margin-start'' in
        asserting User (0 \<le> parseFloat pf marginStart \<and> parseFloat pf marginStart < 1)
          ''data-margin-start must be a number and be between 0 and 1 for: %s''
          (let marginEnd = getAttribute el ''data-margin-end'' in
           asserting User (0 \<le> parseFloat pf marginEnd \<and> parseFloat pf marginEnd < 1)
             ''data-margin-end must be a number and be between 0 and 1 for: %s''
             (asserting User (parseFloat pf marginStart < parseFloat pf marginEnd)
                ''data-margin-end must be greater than data-margin-start for: %s''
                (Inr ()))))"

text \<open>
  \<^verbatim>\<open>update\<close> runs on the host object and a scroll entry. Its only statement that can
  throw is the developers' assertion it starts with, before anything is written: a
  result \<open>Inl\<close> leaves the host object as it was. A result \<open>Inr\<close> is the host object
  after the call.
\<close>

fun update :: "FxType \<Rightarrow> FxElement \<Rightarrow> PositionEntry \<Rightarrow> error + FxElement" where
  "update Parallax fxElement entry =
     asserting Dev (truthy (adjustedViewportHeight fxElement)) []
       (case positionRect entry of
          None \<Rightarrow> Inr fxElement
        | Some rect \<Rightarrow>
            if adjustedViewportHeight fxElement < rectTop rect then Inr fxElement
            else
              let adjustedFactor = - (parseFloat_number (getFactor fxElement) - 1);
                  top' = rectTop rect;
                  offset = (adjustedViewportHeight fxElement - top') * adjustedFactor;
                  fxElement = setOffset fxElement offset
              in if isMutateScheduled fxElement then Inr fxElement
                 else Inr (mutateElement (setIsMutateScheduled fxElement True)
                             ParallaxMutation))"
| "update FlyInBottom fxElement entry =
     asserting Dev (truthy (adjustedViewportHeight fxElement)) []
       (case positionRect entry of
          None \<Rightarrow> Inr fxElement
        | Some rect \<Rightarrow>
            if (1 - getMargin fxElement) * adjustedViewportHeight fxElement < rectTop rect
            then Inr fxElement
            else if isMutateScheduled fxElement then Inr fxElement
            else Inr (mutateElement (setIsMutateScheduled fxElement True)
                        FlyInBottomMutation))"
| "update FadeIn fxElement entry =
     asserting Dev (truthy (adjustedViewportHeight fxElement)) []
       (case positionRect entry of
          None \<Rightarrow> Inr fxElement
        | Some rect \<Rightarrow>
            if (1 - getMarginStart fxElement) * adjustedViewportHeight fxElement < rectTop rect
            then Inr fxElement
            else if isMutateScheduled fxElement then Inr fxElement
            else Inr (mutateElement (setIsMutateScheduled fxElement True)
                        FadeInMutation))"
| "update FadeInScroll fxElement entry =
     asserting Dev (truthy (adjustedViewportHeight fxElement)) []
       (case positionRect entry of
          None \<Rightarrow> Inr fxElement
        | Some rect \<Rightarrow>
            if (1 - getMarginStart fxElement) * adjustedViewportHeight fxElement < rectTop rect
            then Inr fxElement
            else if isMutateScheduled fxElement then Inr fxElement
            else if \<not> hasRepeat fxElement \<and> 1 \<le> getOffset fxElement then Inr fxElement
            else
              let top' = rectTop rect;
                  marginDelta = getMarginEnd fxElement - getMarginStart fxElement;
                  offset = 1 * (adjustedViewportHeight fxElement - top' -
                      (getMarginStart fxElement * adjustedViewportHeight fxElement)) /
                    (marginDelta * adjustedViewportHeight fxElement);
                  fxElement = setOffset fxElement offset
              in if isMutateScheduled fxElement then Inr fxElement
                 else Inr (mutateElement (setIsMutateScheduled fxElement True)
                             FadeInScrollMutation))"

text \<open>
  The callbacks \<^verbatim>\<open>update\<close> hands to \<^verbatim>\<open>mutateElement\<close>, run later by the service. Each
  reads the host object as it is when it runs. \<open>CssTranslateYPx v\<close> stands for the text
  \<^verbatim>\<open>translateY(<v.toFixed(0)>px)\<close>.
\<close>

fun runMutation :: "Mutation \<Rightarrow> FxElement \<Rightarrow> FxElement" where
  "runMutation ParallaxMutation fxElement =
     (let fxElement = setIsMutateScheduled fxElement False
      in setStyles fxElement [(''transform'', CssTranslateYPx (getOffset fxElement))])"
| "runMutation FlyInBottomMutation fxElement =
     (let fxElement = setIsMutateScheduled fxElement False
      in setStyles fxElement
           [(''transition-duration'', CssText (getDuration fxElement)),
            (''transition-timing-function'', CssText (getEasing fxElement)),
            (''transform'', CssText ''translateY(-150px)'')])"
| "runMutation FadeInMutation fxElement =
     (let fxElement = setIsMutateScheduled fxElement False
      in setStyles fxElement
           [(''transition-duration'', CssText (getDuration fxElement)),
            (''transition-timing-function'', CssText (getEasing fxElement)),
            (''opacity'', CssNumber 1)])"
| "runMutation FadeInScrollMutation fxElement =
     (let fxElement = setIsMutateScheduled fxElement False
      in setStyles fxElement [(''opacity'', CssNumber (getOffset fxElement))])"

definition callback :: "FxType \<Rightarrow> Mutation" where
  \<comment> \<open>The callback each preset's \<^verbatim>\<open>update\<close> schedules.\<close>
  "callback t =
     (case t of Parallax \<Rightarrow> ParallaxMutation | FlyInBottom \<Rightarrow> FlyInBottomMutation
      | FadeIn \<Rightarrow> FadeInMutation | FadeInScroll \<Rightarrow> FadeInScrollMutation)"

text \<open>
  Two conditions \<^verbatim>\<open>update\<close> tests, named so that properties can speak of an entry
  inside the viewport. \<open>outsideViewport\<close> is the condition of the first \<^verbatim>\<open>return\<close> of
  each \<^verbatim>\<open>update\<close> (the source's comment: outside viewport): the entry has no
  \<^verbatim>\<open>positionRect\<close>, or its \<^verbatim>\<open>top\<close> is greater than the preset's threshold.
  \<open>fullyOpaque\<close> is the condition of the early exit of fade-in-scroll (the animation
  does not repeat and the offset is at least 1); no other preset has one.
\<close>

definition outsideViewport :: "FxType \<Rightarrow> FxElement \<Rightarrow> PositionEntry \<Rightarrow> bool" where
  "outsideViewport t fx entry =
     (case positionRect entry of
        None \<Rightarrow> True
      | Some rect \<Rightarrow>
          (case t of
             Parallax \<Rightarrow> adjustedViewportHeight fx < rectTop rect
           | FlyInBottom \<Rightarrow> (1 - getMargin fx) * adjustedViewportHeight fx < rectTop rect
           | FadeIn \<Rightarrow> (1 - getMarginStart fx) * adjustedViewportHeight fx < rectTop rect
           | FadeInScroll \<Rightarrow>
               (1 - getMarginStart fx) * adjustedViewportHeight fx < rectTop rect))"

definition fullyOpaque :: "FxType \<Rightarrow> FxElement \<Rightarrow> bool" where
  "fullyOpaque t fx = (t = FadeInScroll \<and> \<not> hasRepeat fx \<and> 1 \<le> getOffset fx)"

subsection \<open>Sample inputs\<close>

definition parseFloat_sample :: "string \<Rightarrow> jsnum" where
  \<comment> \<open>What \<^verbatim>\<open>parseFloat\<close> returns on the attribute values of the examples below, and
      \<^verbatim>\<open>NaN\<close> elsewhere. The theorems hold for every way of parsing; the examples need
      one.\<close>
  "parseFloat_sample s =
     (if s = ''0.5'' then Fin (1 / 2) else if s = ''0.2'' then Fin (1 / 5)
      else if s = ''2'' then Fin 2 else NaN)"

definition fx0 :: FxElement where
  \<comment> \<open>A host object in a viewport of adjusted height 100, with parallax factor 2, the
      margins 0 and 0.5, offset 0 and no mutation pending.\<close>
  "fx0 = \<lparr>adjustedViewportHeight = Fin 100, getFactor = Fin 2, getMargin = Fin 0,
     getMarginStart = Fin 0, getMarginEnd = Fin (1 / 2), getDuration = ''1000ms'',
     getEasing = ''ease-in'', hasRepeat = False, getOffset = Fin 0,
     isMutateScheduled = False, getResources = [], getElement = Map.empty\<rparr>"

section \<open>Properties\<close>

subsection \<open>Numbers and attributes\<close>

lemmas jsnum_ops = zero_jsnum_def one_jsnum_def plus_jsnum_def minus_jsnum_def
  uminus_jsnum_def times_jsnum_def divide_jsnum_def less_jsnum_def less_eq_jsnum_def
  js_less_eq_def

lemmas attr_defs = hasAttribute_def getAttribute_def parseFloat_def attr_truthy_def

lemma le_not_gt: "(a::jsnum) \<le> b \<Longrightarrow> \<not> b < a"
  by (cases a; cases b) (auto simp: jsnum_ops)

lemma NaN_compare:
  "\<not> (x::jsnum) \<le> NaN" "\<not> NaN \<le> (x::jsnum)" "\<not> (x::jsnum) < NaN" "\<not> NaN < (x::jsnum)"
  by (cases x; simp add: jsnum_ops)+

subsection \<open>The assertion and the pending-mutation guard of update\<close>

lemma update_asserts_height:
  "\<not> truthy (adjustedViewportHeight fx) \<Longrightarrow> update t fx entry = Inl (AssertionError Dev [])"
  by (cases t) (simp_all add: asserting_def)

lemma update_returns:
  "truthy (adjustedViewportHeight fx) \<Longrightarrow> \<exists>fx'. update t fx entry = Inr fx'"
  by (cases t) (auto simp: asserting_def Let_def split: option.splits)

lemma update_pending:
  assumes "isMutateScheduled fx" and "truthy (adjustedViewportHeight fx)"
  shows "update t fx entry =
     Inr (case positionRect entry of
            None \<Rightarrow> fx
          | Some rect \<Rightarrow>
              if t = Parallax \<and> \<not> adjustedViewportHeight fx < rectTop rect
              then fx\<lparr>getOffset :=
                     (adjustedViewportHeight fx - rectTop rect) * - (getFactor fx - 1)\<rparr>
              else fx)"
  using assms
  by (cases t)
    (auto simp: asserting_def Let_def parseFloat_number_def split: option.splits)

lemma runMutation_clears_flag: "\<not> isMutateScheduled (runMutation m fx)"
  by (cases m) (simp_all add: setStyles_def)

subsection \<open>Parallax: the offset\<close>

text \<open>
  Claim C1, amended. For the parallax preset, when \<^verbatim>\<open>adjustedViewportHeight\<close> is truthy
  (neither 0 nor \<^verbatim>\<open>NaN\<close>, so that the assertion \<^verbatim>\<open>update\<close> starts with passes): for
  every scroll entry whose \<^verbatim>\<open>positionRect\<close> is present with
  \<^verbatim>\<open>top <= adjustedViewportHeight\<close>, \<^verbatim>\<open>update\<close> sets the element's offset to
  \<^verbatim>\<open>(adjustedViewportHeight - top) * -(factor - 1)\<close>; for every entry with
  \<^verbatim>\<open>positionRect\<close> absent or \<^verbatim>\<open>top > adjustedViewportHeight\<close>, \<^verbatim>\<open>update\<close> returns
  the host object as it was, without computing or storing an offset.
\<close>

theorem parallax_update_offset:
  assumes "truthy (adjustedViewportHeight fx)"
  shows "(positionRect entry = Some rect \<and> rectTop rect \<le> adjustedViewportHeight fx \<longrightarrow>
            (\<exists>fx'. update Parallax fx entry = Inr fx' \<and>
               getOffset fx' =
                 (adjustedViewportHeight fx - rectTop rect) * - (getFactor fx - 1)))
       \<and> (positionRect entry = None \<or>
            (\<exists>r. positionRect entry = Some r \<and> adjustedViewportHeight fx < rectTop r) \<longrightarrow>
            update Parallax fx entry = Inr fx)"
  using assms
  by (auto simp: asserting_def Let_def parseFloat_number_def mutateElement_def
      dest: le_not_gt)

text \<open>
  In a viewport of height 100 with factor 2, an element at \<^verbatim>\<open>top = 40\<close> gets the offset
  \<^verbatim>\<open>(100 - 40) * -(2 - 1) = -60\<close>, and one at \<^verbatim>\<open>top = 101\<close> is left alone.
\<close>

theorem parallax_update_offset_witness:
  "truthy (adjustedViewportHeight fx0) \<and>
   (\<exists>fx'. update Parallax fx0 \<lparr>positionRect = Some \<lparr>rectTop = Fin 40\<rparr>\<rparr> = Inr fx' \<and>
      getOffset fx' = Fin (- 60)) \<and>
   update Parallax fx0 \<lparr>positionRect = Some \<lparr>rectTop = Fin 101\<rparr>\<rparr> = Inr fx0"
  using parallax_update_offset [of fx0 "\<lparr>positionRect = Some \<lparr>rectTop = Fin 40\<rparr>\<rparr>"
      "\<lparr>rectTop = Fin 40\<rparr>"]
    parallax_update_offset [of fx0 "\<lparr>positionRect = Some \<lparr>rectTop = Fin 101\<rparr>\<rparr>"
      "\<lparr>rectTop = Fin 101\<rparr>"]
  by (simp add: fx0_def truthy_def jsnum_ops)

text \<open>
  Claim C1 as stated fails where \<^verbatim>\<open>adjustedViewportHeight\<close> is 0: the entry has a
  \<^verbatim>\<open>positionRect\<close> with \<^verbatim>\<open>top = -10 <= 0\<close>, and \<^verbatim>\<open>update\<close> stops at its assertion
  and stores no offset.
\<close>

theorem parallax_update_zero_height_counterexample:
  "positionRect \<lparr>positionRect = Some \<lparr>rectTop = Fin (- 10)\<rparr>\<rparr> = Some \<lparr>rectTop = Fin (- 10)\<rparr> \<and>
   rectTop \<lparr>rectTop = Fin (- 10)\<rparr> \<le> adjustedViewportHeight (fx0\<lparr>adjustedViewportHeight := 0\<rparr>) \<and>
   update Parallax (fx0\<lparr>adjustedViewportHeight := 0\<rparr>)
     \<lparr>positionRect = Some \<lparr>rectTop = Fin (- 10)\<rparr>\<rparr> = Inl (AssertionError Dev [])"
  by (simp add: fx0_def truthy_def jsnum_ops asserting_def)

subsection \<open>At most one pending mutation\<close>

lemma update_first_call:
  assumes "truthy (adjustedViewportHeight fx)" and "\<not> isMutateScheduled fx"
    and "\<not> outsideViewport t fx entry" and "\<not> fullyOpaque t fx"
  shows "\<exists>fx1. update t fx entry = Inr fx1 \<and> isMutateScheduled fx1 \<and>
           adjustedViewportHeight fx1 = adjustedViewportHeight fx \<and>
           getResources fx1 = getResources fx @ [callback t]"
  using assms
  by (cases t)
    (auto simp: outsideViewport_def fullyOpaque_def asserting_def Let_def mutateElement_def
      callback_def split: option.splits)

lemma update_sets_flag_only_if:
  assumes "\<not> isMutateScheduled fx" and "update t fx entry = Inr fx1"
    and "isMutateScheduled fx1"
  shows "truthy (adjustedViewportHeight fx) \<and> \<not> outsideViewport t fx entry \<and>
         \<not> fullyOpaque t fx"
  using assms
  by (cases t)
    (auto simp: outsideViewport_def fullyOpaque_def asserting_def Let_def mutateElement_def
      split: option.splits if_splits)

text \<open>
  Claim C2. For every preset, if \<^verbatim>\<open>update\<close> is called twice before the scheduled
  mutation callback has run, exactly one mutation is scheduled in total. Starting with
  no mutation pending, the first call leaves \<^verbatim>\<open>mutateScheduled\<close> true exactly when it
  passes its guards: \<^verbatim>\<open>adjustedViewportHeight\<close> is truthy, the entry is inside the
  viewport, and (for fade-in-scroll) the early exit does not apply. Such a first call
  sets \<^verbatim>\<open>mutateScheduled\<close> and hands exactly one callback, the preset's own, to
  \<^verbatim>\<open>mutateElement\<close>; the second call, whatever its entry, returns with the flag still
  true and the queue still holding that one callback: it neither calls
  \<^verbatim>\<open>mutateElement\<close> nor sets the flag again.
\<close>

theorem update_twice_schedules_once:
  assumes "\<not> isMutateScheduled fx"
  shows "((\<exists>fx1. update t fx entry1 = Inr fx1 \<and> isMutateScheduled fx1) \<longleftrightarrow>
            truthy (adjustedViewportHeight fx) \<and> \<not> outsideViewport t fx entry1 \<and>
            \<not> fullyOpaque t fx)
       \<and> (truthy (adjustedViewportHeight fx) \<and> \<not> outsideViewport t fx entry1 \<and>
            \<not> fullyOpaque t fx \<longrightarrow>
            (\<exists>fx1 fx2. update t fx entry1 = Inr fx1 \<and> isMutateScheduled fx1 \<and>
               getResources fx1 = getResources fx @ [callback t] \<and>
               update t fx1 entry2 = Inr fx2 \<and> isMutateScheduled fx2 \<and>
               getResources fx2 = getResources fx @ [callback t]))"
proof -
  have twice: "\<exists>fx1 fx2. update t fx entry1 = Inr fx1 \<and> isMutateScheduled fx1 \<and>
      getResources fx1 = getResources fx @ [callback t] \<and>
      update t fx1 entry2 = Inr fx2 \<and> isMutateScheduled fx2 \<and>
      getResources fx2 = getResources fx @ [callback t]"
    if inside: "truthy (adjustedViewportHeight fx)" "\<not> outsideViewport t fx entry1"
      "\<not> fullyOpaque t fx"
  proof -
    obtain fx1 where first: "update t fx entry1 = Inr fx1" "isMutateScheduled fx1"
      "adjustedViewportHeight fx1 = adjustedViewportHeight fx"
      "getResources fx1 = getResources fx @ [callback t]"
      using update_first_call [OF inside(1) assms inside(2,3)] by blast
    have height: "truthy (adjustedViewportHeight fx1)"
      using first(3) inside(1) by simp
    obtain fx2 where second: "update t fx1 entry2 = Inr fx2" "isMutateScheduled fx2"
      "getResources fx2 = getResources fx1"
      using first(2) by (simp add: update_pending [OF first(2) height] split: option.splits)
    show ?thesis
      using first second by auto
  qed
  have only_if: "truthy (adjustedViewportHeight fx) \<and> \<not> outsideViewport t fx entry1 \<and>
      \<not> fullyOpaque t fx"
    if "\<exists>fx1. update t fx entry1 = Inr fx1 \<and> isMutateScheduled fx1"
    using that update_sets_flag_only_if [OF assms] by blast
  show ?thesis
    using twice only_if by blast
qed

text \<open>
  Two scroll events for a fly-in-bottom element with margin 0.25 in a viewport of height
  100 (threshold 75), at \<^verbatim>\<open>top = 40\<close> and at \<^verbatim>\<open>top = 30\<close>: the first call sets the flag
  and queues one callback, and the second returns the same host object.
\<close>

theorem update_twice_schedules_once_witness:
  "\<not> isMutateScheduled (fx0\<lparr>getMargin := Fin (1 / 4)\<rparr>) \<and>
   truthy (adjustedViewportHeight (fx0\<lparr>getMargin := Fin (1 / 4)\<rparr>)) \<and>
   \<not> outsideViewport FlyInBottom (fx0\<lparr>getMargin := Fin (1 / 4)\<rparr>)
       \<lparr>positionRect = Some \<lparr>rectTop = Fin 40\<rparr>\<rparr> \<and>
   \<not> fullyOpaque FlyInBottom (fx0\<lparr>getMargin := Fin (1 / 4)\<rparr>) \<and>
   update FlyInBottom (fx0\<lparr>getMargin := Fin (1 / 4)\<rparr>)
       \<lparr>positionRect = Some \<lparr>rectTop = Fin 40\<rparr>\<rparr> =
     Inr (fx0\<lparr>getMargin := Fin (1 / 4), isMutateScheduled := True,
            getResources := [FlyInBottomMutation]\<rparr>) \<and>
   update FlyInBottom
       (fx0\<lparr>getMargin := Fin (1 / 4), isMutateScheduled := True,
            getResources := [FlyInBottomMutation]\<rparr>)
       \<lparr>positionRect = Some \<lparr>rectTop = Fin 30\<rparr>\<rparr> =
     Inr (fx0\<lparr>getMargin := Fin (1 / 4), isMutateScheduled := True,
            getResources := [FlyInBottomMutation]\<rparr>)"
  using update_twice_schedules_once [of "fx0\<lparr>getMargin := Fin (1 / 4)\<rparr>" FlyInBottom
      "\<lparr>positionRect = Some \<lparr>rectTop = Fin 40\<rparr>\<rparr>"
      "\<lparr>positionRect = Some \<lparr>rectTop = Fin 30\<rparr>\<rparr>"]
  by (simp add: fx0_def truthy_def jsnum_ops outsideViewport_def fullyOpaque_def
      asserting_def mutateElement_def)

subsection \<open>A call while a mutation is pending\<close>

text \<open>
  Claim C3, amended. While \<^verbatim>\<open>mutateScheduled\<close> is true, \<^verbatim>\<open>update\<close> of fly-in-bottom,
  fade-in and fade-in-scroll is a no-op: it returns the host object with every field
  unchanged. \<^verbatim>\<open>update\<close> of parallax leaves every field but \<^verbatim>\<open>offset\<close> unchanged: for an
  entry inside the viewport it stores the newly computed offset before it reaches the
  pending-mutation guard, and for any other entry it changes nothing. (Where
  \<^verbatim>\<open>adjustedViewportHeight\<close> is falsy the call stops at its assertion instead, having
  written nothing.)
\<close>

theorem update_while_scheduled:
  assumes "isMutateScheduled fx"
  shows "update t fx entry =
     (if \<not> truthy (adjustedViewportHeight fx) then Inl (AssertionError Dev [])
      else Inr (case positionRect entry of
             None \<Rightarrow> fx
           | Some rect \<Rightarrow>
               if t = Parallax \<and> \<not> adjustedViewportHeight fx < rectTop rect
               then fx\<lparr>getOffset :=
                      (adjustedViewportHeight fx - rectTop rect) * - (getFactor fx - 1)\<rparr>
               else fx))"
  using assms by (simp add: update_asserts_height update_pending)

text \<open>
  With a mutation pending and an entry at \<^verbatim>\<open>top = 40\<close>, fade-in-scroll returns the host
  object as it was, and parallax returns it with the offset -60.
\<close>

theorem update_while_scheduled_witness:
  "isMutateScheduled (fx0\<lparr>isMutateScheduled := True\<rparr>) \<and>
   update FadeInScroll (fx0\<lparr>isMutateScheduled := True\<rparr>)
     \<lparr>positionRect = Some \<lparr>rectTop = Fin 40\<rparr>\<rparr> = Inr (fx0\<lparr>isMutateScheduled := True\<rparr>) \<and>
   update Parallax (fx0\<lparr>isMutateScheduled := True\<rparr>)
     \<lparr>positionRect = Some \<lparr>rectTop = Fin 40\<rparr>\<rparr> =
     Inr (fx0\<lparr>isMutateScheduled := True, getOffset := Fin (- 60)\<rparr>)"
  using update_while_scheduled [of "fx0\<lparr>isMutateScheduled := True\<rparr>" FadeInScroll
      "\<lparr>positionRect = Some \<lparr>rectTop = Fin 40\<rparr>\<rparr>"]
    update_while_scheduled [of "fx0\<lparr>isMutateScheduled := True\<rparr>" Parallax
      "\<lparr>positionRect = Some \<lparr>rectTop = Fin 40\<rparr>\<rparr>"]
  by (simp add: fx0_def truthy_def jsnum_ops)

text \<open>
  Claim C3 as stated fails for parallax: with a mutation pending and the offset 0, a call
  with an entry at \<^verbatim>\<open>top = 40\<close> changes the offset to -60.
\<close>

theorem parallax_update_while_scheduled_counterexample:
  "isMutateScheduled (fx0\<lparr>isMutateScheduled := True\<rparr>) \<and>
   getOffset (fx0\<lparr>isMutateScheduled := True\<rparr>) = Fin 0 \<and>
   update Parallax (fx0\<lparr>isMutateScheduled := True\<rparr>)
     \<lparr>positionRect = Some \<lparr>rectTop = Fin 40\<rparr>\<rparr> =
     Inr (fx0\<lparr>isMutateScheduled := True, getOffset := Fin (- 60)\<rparr>) \<and>
   Fin (- 60) \<noteq> Fin 0"
  by (simp add: fx0_def truthy_def jsnum_ops asserting_def parseFloat_number_def)

subsection \<open>Fade-in-scroll: the offset\<close>




subsection \<open>Validation of the margins\<close>

text \<open>
  Claim C5, amended. For fly-in-bottom (\<^verbatim>\<open>data-margin\<close>) and fade-in
  (\<^verbatim>\<open>data-margin-start\<close>), when the margin attribute is present \<^verbatim>\<open>userAsserts\<close> raises
  exactly when its parsed value is outside [0,1). For fade-in-scroll, when at least one
  of its two margin attributes is present, \<^verbatim>\<open>userAsserts\<close> raises exactly when the
  parsed \<^verbatim>\<open>data-margin-start\<close> is outside [0,1), or the parsed \<^verbatim>\<open>data-margin-end\<close> is
  outside [0,1) (an absent attribute parses to \<^verbatim>\<open>NaN\<close>), or the parsed end is not greater
  than the parsed start; so when both are present and in range, it raises exactly when
  the parsed end is not greater than the parsed start.
\<close>

theorem userAsserts_margins:
  assumes "m = parseFloat pf (getAttribute el ''data-margin'')"
    and "s = parseFloat pf (getAttribute el ''data-margin-start'')"
    and "e = parseFloat pf (getAttribute el ''data-margin-end'')"
  shows "(hasAttribute el ''data-margin'' \<longrightarrow>
            ((\<exists>err. userAsserts pf FlyInBottom el = Inl err) \<longleftrightarrow> \<not> (0 \<le> m \<and> m < 1)))
       \<and> (hasAttribute el ''data-margin-start'' \<longrightarrow>
            ((\<exists>err. userAsserts pf FadeIn el = Inl err) \<longleftrightarrow> \<not> (0 \<le> s \<and> s < 1)))
       \<and> (hasAttribute el ''data-margin-start'' \<or> hasAttribute el ''data-margin-end'' \<longrightarrow>
            ((\<exists>err. userAsserts pf FadeInScroll el = Inl err) \<longleftrightarrow>
               \<not> (0 \<le> s \<and> s < 1) \<or> \<not> (0 \<le> e \<and> e < 1) \<or> \<not> s < e))
       \<and> (hasAttribute el ''data-margin-start'' \<and> hasAttribute el ''data-margin-end'' \<and>
            0 \<le> s \<and> s < 1 \<and> 0 \<le> e \<and> e < 1 \<longrightarrow>
            ((\<exists>err. userAsserts pf FadeInScroll el = Inl err) \<longleftrightarrow> \<not> s < e))"
  using assms by (auto simp: asserting_def Let_def)

text \<open>
  \<^verbatim>\<open>data-margin="2"\<close> is rejected by fly-in-bottom; \<^verbatim>\<open>data-margin-start="0.2"\<close> with
  \<^verbatim>\<open>data-margin-end="0.5"\<close> is accepted by fade-in-scroll, and the two the other way
  round are rejected.
\<close>

theorem userAsserts_margins_witness:
  "hasAttribute [''data-margin'' \<mapsto> ''2''] ''data-margin'' \<and>
   (\<exists>err. userAsserts parseFloat_sample FlyInBottom [''data-margin'' \<mapsto> ''2''] = Inl err) \<and>
   \<not> Fin 2 < (1::jsnum) \<and>
   hasAttribute [''data-margin-start'' \<mapsto> ''0.2'', ''data-margin-end'' \<mapsto> ''0.5'']
     ''data-margin-start'' \<and>
   hasAttribute [''data-margin-start'' \<mapsto> ''0.2'', ''data-margin-end'' \<mapsto> ''0.5'']
     ''data-margin-end'' \<and>
   Fin (1 / 5) < Fin (1 / 2) \<and>
   userAsserts parseFloat_sample FadeInScroll
     [''data-margin-start'' \<mapsto> ''0.2'', ''data-margin-end'' \<mapsto> ''0.5''] = Inr () \<and>
   (\<exists>err. userAsserts parseFloat_sample FadeInScroll
     [''data-margin-start'' \<mapsto> ''0.5'', ''data-margin-end'' \<mapsto> ''0.2''] = Inl err)"
  using userAsserts_margins [of "Fin 2" parseFloat_sample "[''data-margin'' \<mapsto> ''2'']" NaN NaN]
    userAsserts_margins [of NaN parseFloat_sample
      "[''data-margin-start'' \<mapsto> ''0.2'', ''data-margin-end'' \<mapsto> ''0.5'']"
      "Fin (1 / 5)" "Fin (1 / 2)"]
    userAsserts_margins [of NaN parseFloat_sample
      "[''data-margin-start'' \<mapsto> ''0.5'', ''data-margin-end'' \<mapsto> ''0.2'']"
      "Fin (1 / 2)" "Fin (1 / 5)"]
  by (simp add: attr_defs parseFloat_sample_def jsnum_ops asserting_def)

text \<open>
  Claim C5 as stated fails for fade-in-scroll: with \<^verbatim>\<open>data-margin-start="0.5"\<close> and no
  \<^verbatim>\<open>data-margin-end\<close>, a margin attribute is present and its parsed value is in [0,1),
  and \<^verbatim>\<open>userAsserts\<close> raises.
\<close>

theorem userAsserts_margins_counterexample:
  "hasAttribute [''data-margin-start'' \<mapsto> ''0.5''] ''data-margin-start'' \<and>
   0 \<le> parseFloat parseFloat_sample
          (getAttribute [''data-margin-start'' \<mapsto> ''0.5''] ''data-margin-start'') \<and>
   parseFloat parseFloat_sample
     (getAttribute [''data-margin-start'' \<mapsto> ''0.5''] ''data-margin-start'') < 1 \<and>
   userAsserts parseFloat_sample FadeInScroll [''data-margin-start'' \<mapsto> ''0.5''] =
     Inl (AssertionError User
           ''data-margin-end must be a number and be between 0 and 1 for: %s'')"
  by (simp add: attr_defs parseFloat_sample_def jsnum_ops asserting_def)

subsection \<open>Validation of a missing attribute\<close>

text \<open>
  Claim C6, amended. \<^verbatim>\<open>userAsserts\<close> fails with a user-facing error whenever
  \<^verbatim>\<open>data-parallax-factor\<close> is missing from a parallax element, and whenever exactly one
  of \<^verbatim>\<open>data-margin-start\<close> and \<^verbatim>\<open>data-margin-end\<close> is missing from a fade-in-scroll
  element. A missing margin is otherwise accepted: fly-in-bottom without \<^verbatim>\<open>data-margin\<close>,
  fade-in without \<^verbatim>\<open>data-margin-start\<close> and fade-in-scroll with neither margin
  attribute return without error.
\<close>

theorem userAsserts_missing_attribute:
  "(\<not> hasAttribute el ''data-parallax-factor'' \<longrightarrow>
      userAsserts pf Parallax el = Inl (AssertionError User
        ''data-parallax-factor=<number> attribute must be provided for: %s''))
   \<and> (\<not> hasAttribute el ''data-margin'' \<longrightarrow> userAsserts pf FlyInBottom el = Inr ())
   \<and> (\<not> hasAttribute el ''data-margin-start'' \<longrightarrow> userAsserts pf FadeIn el = Inr ())
   \<and> (\<not> hasAttribute el ''data-margin-start'' \<and> \<not> hasAttribute el ''data-margin-end'' \<longrightarrow>
        userAsserts pf FadeInScroll el = Inr ())
   \<and> (hasAttribute el ''data-margin-start'' \<noteq> hasAttribute el ''data-margin-end'' \<longrightarrow>
        (\<exists>err. userAsserts pf FadeInScroll el = Inl err))"
  by (auto simp: asserting_def Let_def attr_defs NaN_compare split: option.splits)

text \<open>
  An element with no attribute at all is rejected by parallax and accepted by
  fade-in-scroll; one with \<^verbatim>\<open>data-margin-end\<close> only is rejected by fade-in-scroll.
\<close>

theorem userAsserts_missing_attribute_witness:
  "\<not> hasAttribute Map.empty ''data-parallax-factor'' \<and>
   userAsserts parseFloat_sample Parallax Map.empty = Inl (AssertionError User
        ''data-parallax-factor=<number> attribute must be provided for: %s'') \<and>
   userAsserts parseFloat_sample FadeInScroll Map.empty = Inr () \<and>
   hasAttribute [''data-margin-end'' \<mapsto> ''0.5''] ''data-margin-end'' \<and>
   (\<exists>err. userAsserts parseFloat_sample FadeInScroll [''data-margin-end'' \<mapsto> ''0.5''] = Inl err)"
  using userAsserts_missing_attribute [of Map.empty parseFloat_sample]
    userAsserts_missing_attribute [of "[''data-margin-end'' \<mapsto> ''0.5'']" parseFloat_sample]
  by (simp add: attr_defs)

text \<open>
  Claim C6 as stated fails on an element with no attribute at all: fly-in-bottom reads
  \<^verbatim>\<open>data-margin\<close> and fade-in reads \<^verbatim>\<open>data-margin-start\<close>, both are missing, and both
  validations return without error.
\<close>

theorem userAsserts_missing_margin_counterexample:
  "\<not> hasAttribute Map.empty ''data-margin'' \<and>
   userAsserts parseFloat_sample FlyInBottom Map.empty = Inr () \<and>
   \<not> hasAttribute Map.empty ''data-margin-start'' \<and>
   userAsserts parseFloat_sample FadeIn Map.empty = Inr ()"
  by (simp add: attr_defs)

subsection \<open>Errors of update\<close>

text \<open>
  Claim C7, amended. For every preset and every entry, \<^verbatim>\<open>update\<close> returns without
  error when \<^verbatim>\<open>adjustedViewportHeight\<close> is truthy: an entry outside the viewport and a
  mutation already pending lead to a silent return. The one assertion inside
  \<^verbatim>\<open>update\<close>, on \<^verbatim>\<open>adjustedViewportHeight\<close>, fails exactly when that height is falsy
  (0 or \<^verbatim>\<open>NaN\<close>), and then \<^verbatim>\<open>update\<close> raises its error.
\<close>

theorem update_raises_iff_height_falsy:
  "(truthy (adjustedViewportHeight fx) \<longrightarrow> (\<exists>fx'. update t fx entry = Inr fx')) \<and>
   (\<not> truthy (adjustedViewportHeight fx) \<longrightarrow>
      update t fx entry = Inl (AssertionError Dev []))"
  by (simp add: update_asserts_height update_returns)

text \<open>
  Fly-in-bottom with an entry at \<^verbatim>\<open>top = 40\<close>: the call returns in a viewport of
  height 100, and raises where the height is \<^verbatim>\<open>NaN\<close>.
\<close>

theorem update_raises_iff_height_falsy_witness:
  "truthy (adjustedViewportHeight fx0) \<and>
   (\<exists>fx'. update FlyInBottom fx0 \<lparr>positionRect = Some \<lparr>rectTop = Fin 40\<rparr>\<rparr> = Inr fx') \<and>
   \<not> truthy (adjustedViewportHeight (fx0\<lparr>adjustedViewportHeight := NaN\<rparr>)) \<and>
   update FlyInBottom (fx0\<lparr>adjustedViewportHeight := NaN\<rparr>)
     \<lparr>positionRect = Some \<lparr>rectTop = Fin 40\<rparr>\<rparr> = Inl (AssertionError Dev [])"
  using update_raises_iff_height_falsy [of fx0 FlyInBottom
      "\<lparr>positionRect = Some \<lparr>rectTop = Fin 40\<rparr>\<rparr>"]
    update_raises_iff_height_falsy [of "fx0\<lparr>adjustedViewportHeight := NaN\<rparr>" FlyInBottom
      "\<lparr>positionRect = Some \<lparr>rectTop = Fin 40\<rparr>\<rparr>"]
  by (simp add: fx0_def truthy_def)

text \<open>
  Claim C7 as stated fails where \<^verbatim>\<open>adjustedViewportHeight\<close> is 0: \<^verbatim>\<open>update\<close> of
  fade-in raises at its assertion, here for an entry outside the viewport.
\<close>

theorem update_raises_counterexample:
  "update FadeIn (fx0\<lparr>adjustedViewportHeight := 0\<rparr>) \<lparr>positionRect = None\<rparr> =
     Inl (AssertionError Dev [])"
  by (simp add: fx0_def truthy_def jsnum_ops asserting_def)

subsection \<open>An entry without a rectangle\<close>

text \<open>
  Claim C8. For every preset, if the scroll entry's \<^verbatim>\<open>positionRect\<close> is absent,
  \<^verbatim>\<open>update\<close> schedules no mutation: it returns the host object as it was, with the
  queue of \<^verbatim>\<open>mutateElement\<close> and the flag \<^verbatim>\<open>mutateScheduled\<close> unchanged (or stops at
  its assertion, having written nothing).
\<close>

theorem update_without_rect:
  assumes "positionRect entry = None"
  shows "update t fx entry =
     (if truthy (adjustedViewportHeight fx) then Inr fx else Inl (AssertionError Dev []))"
  using assms by (cases t) (simp_all add: asserting_def)

text \<open>
  Fly-in-bottom on an entry without a rectangle: nothing is queued and the flag stays
  false.
\<close>

theorem update_without_rect_witness:
  "positionRect \<lparr>positionRect = None\<rparr> = None \<and>
   update FlyInBottom fx0 \<lparr>positionRect = None\<rparr> = Inr fx0 \<and>
   getResources fx0 = [] \<and> \<not> isMutateScheduled fx0"
  using update_without_rect [of "\<lparr>positionRect = None\<rparr>" FlyInBottom fx0]
  by (simp add: fx0_def truthy_def)

subsection \<open>The support check\<close>

lemma isFxTypeSupported_fails_iff_flag_off:
  "((\<exists>err. isFxTypeSupported FadeIn win = Inl err) \<longleftrightarrow>
      \<not> isExperimentOn win ''amp-fx-fade-in'') \<and>
   ((\<exists>err. isFxTypeSupported FadeInScroll win = Inl err) \<longleftrightarrow>
      \<not> isExperimentOn win ''amp-fx-fade-in-scroll'') \<and>
   isFxTypeSupported Parallax win = Inr (Boolean True) \<and>
   isFxTypeSupported FlyInBottom win = Inr (Boolean True)"
  by (simp add: asserting_def)

text \<open>
  Claim C9. \<^verbatim>\<open>isFxTypeSupported\<close> of the experimental presets fails exactly when the
  named experiment is off, as the claim says; but with the experiment on it returns no
  boolean: the function body ends after its assertion, so the result is \<^verbatim>\<open>undefined\<close>,
  where parallax and fly-in-bottom return \<^verbatim>\<open>true\<close>.
\<close>

theorem isFxTypeSupported_experiment_on_undefined:
  "isFxTypeSupported FadeIn {''amp-fx-fade-in''} = Inr Undefined \<and>
   isFxTypeSupported FadeInScroll {''amp-fx-fade-in-scroll''} = Inr Undefined \<and>
   isFxTypeSupported Parallax {''amp-fx-fade-in''} = Inr (Boolean True) \<and>
   isFxTypeSupported FlyInBottom {''amp-fx-fade-in''} = Inr (Boolean True)"
  by (simp add: asserting_def isExperimentOn_def)

subsection \<open>Fade-in-scroll: one margin attribute alone\<close>

text \<open>
  Claim C10. For the fade-in-scroll preset, \<^verbatim>\<open>userAsserts\<close> returns without error when
  neither \<^verbatim>\<open>data-margin-start\<close> nor \<^verbatim>\<open>data-margin-end\<close> is present, but fails when
  exactly one of the two is present, even if the present one has a valid value in [0,1):
  the absent attribute's value parses to \<^verbatim>\<open>NaN\<close> and fails its range assertion.
\<close>

theorem fade_in_scroll_userAsserts_one_margin:
  "(\<not> hasAttribute el ''data-margin-start'' \<and> \<not> hasAttribute el ''data-margin-end'' \<longrightarrow>
      userAsserts pf FadeInScroll el = Inr ())
   \<and> (\<not> hasAttribute el ''data-margin-start'' \<and> hasAttribute el ''data-margin-end'' \<longrightarrow>
        userAsserts pf FadeInScroll el = Inl (AssertionError User
          ''data-margin-start must be a number and be between 0 and 1 for: %s''))
   \<and> (hasAttribute el ''data-margin-start'' \<and> \<not> hasAttribute el ''data-margin-end'' \<longrightarrow>
        (\<exists>err. userAsserts pf FadeInScroll el = Inl err))
   \<and> (hasAttribute el ''data-margin-start'' \<and> \<not> hasAttribute el ''data-margin-end'' \<and>
        0 \<le> parseFloat pf (getAttribute el ''data-margin-start'') \<and>
        parseFloat pf (getAttribute el ''data-margin-start'') < 1 \<longrightarrow>
        userAsserts pf FadeInScroll el = Inl (AssertionError User
          ''data-margin-end must be a number and be between 0 and 1 for: %s''))"
  by (auto simp: asserting_def Let_def attr_defs NaN_compare split: option.splits)

text \<open>
  No margin attribute: accepted. \<^verbatim>\<open>data-margin-end="0.5"\<close> alone: the range assertion
  on the start fails. \<^verbatim>\<open>data-margin-start="0.5"\<close> alone: the one on the end fails.
\<close>

theorem fade_in_scroll_userAsserts_one_margin_witness:
  "userAsserts parseFloat_sample FadeInScroll Map.empty = Inr () \<and>
   userAsserts parseFloat_sample FadeInScroll [''data-margin-end'' \<mapsto> ''0.5''] =
     Inl (AssertionError User
          ''data-margin-start must be a number and be between 0 and 1 for: %s'') \<and>
   userAsserts parseFloat_sample FadeInScroll [''data-margin-start'' \<mapsto> ''0.5''] =
     Inl (AssertionError User
          ''data-margin-end must be a number and be between 0 and 1 for: %s'')"
  using fade_in_scroll_userAsserts_one_margin [of Map.empty parseFloat_sample]
    fade_in_scroll_userAsserts_one_margin
      [of "[''data-margin-end'' \<mapsto> ''0.5'']" parseFloat_sample]
    fade_in_scroll_userAsserts_one_margin
      [of "[''data-margin-start'' \<mapsto> ''0.5'']" parseFloat_sample]
  by (simp add: attr_defs parseFloat_sample_def jsnum_ops)

end
